theory Spec2Isabelle
  imports Main "HOL-Library.Sublist"
begin

section \<open>The rules configuration layer of \<^verbatim>\<open>or-rules\<close> (index.ts)\<close>

text \<open>
  Two parts of \<^verbatim>\<open>ui/component/or-rules/src/index.ts\<close> are embedded: the resolver
  \<^verbatim>\<open>getAssetInfos\<close> with its helpers, and the selection guard of the \<^verbatim>\<open>OrRules\<close>
  element with the request events it listens to.

  JavaScript objects have identity and the resolver writes to objects it did not create,
  so the objects that are written to or compared by identity live in an explicit store:
  a list of objects, an object reference being its index. Arrays and the asset descriptor
  are only ever copied before a write, so they are values.
  An optional field (\<^verbatim>\<open>f?: T\<close>) is an \<open>option\<close>; \<open>None\<close> is \<^verbatim>\<open>undefined\<close>.
  A property read on \<^verbatim>\<open>undefined\<close> is the error \<open>TypeError\<close>.
\<close>

subsection \<open>Data model\<close>

datatype error = TypeError

type_synonym ref = nat

text \<open>
  \<^verbatim>\<open>ValueFormat\<close> and \<^verbatim>\<open>ValueConstraint\<close> come from \<^verbatim>\<open>@openremote/model\<close>; the resolver
  only copies them and tests them for truthiness. They are objects, hence truthy whenever
  defined, and so are the arrays \<^verbatim>\<open>units\<close> and \<^verbatim>\<open>constraints\<close>. The \<^verbatim>\<open>type\<close> of an
  attribute descriptor is the name of a value descriptor, a string, which is falsy when it
  is empty.
\<close>

datatype ValueFormat = ValueFormat string
datatype ValueConstraint = ValueConstraint string

record AttributeDescriptor =
  name :: "string option"
  type :: "string option"
  format :: "ValueFormat option"
  units :: "string list option"
  constraints :: "ValueConstraint list option"

text \<open>\<^verbatim>\<open>interface RulesConfigAttribute extends AttributeDescriptor {}\<close>\<close>

type_synonym RulesConfigAttribute = AttributeDescriptor

record RulesConfigAsset =
  includeAttributes :: "string list option"
  excludeAttributes :: "string list option"
  name :: "string option"
  icon :: "string option"
  color :: "string option"
  attributeDescriptors :: "(string \<rightharpoonup> RulesConfigAttribute) option"

record RulesDescriptorSection =
  includeAssets :: "string list option"
  excludeAssets :: "string list option"
  attributeDescriptors :: "(string \<rightharpoonup> RulesConfigAttribute) option"
  assets :: "(string \<rightharpoonup> RulesConfigAsset) option"

text \<open>The object type of the field \<^verbatim>\<open>RulesConfig.descriptors\<close>.\<close>

record Descriptors =
  all :: "RulesDescriptorSection option"
  "when" :: "RulesDescriptorSection option"
  action :: "RulesDescriptorSection option"

text \<open>
  Of \<^verbatim>\<open>RulesConfig\<close> the embedded functions read \<^verbatim>\<open>descriptors\<close> only
  (\<^verbatim>\<open>controls\<close>, \<^verbatim>\<open>inputProvider\<close>, the handlers and \<^verbatim>\<open>json\<close> are passed through to
  other components).
\<close>

record RulesConfig =
  descriptors :: "Descriptors option"

record AssetDescriptor =
  descriptorType :: "string option"
  name :: "string option"
  icon :: "string option"
  colour :: "string option"

text \<open>
  An \<^verbatim>\<open>AssetTypeInfo\<close> holds its attribute descriptors by reference: the array is a list of
  addresses into the store of attribute descriptor objects.
\<close>

record AssetTypeInfo =
  assetDescriptor :: "AssetDescriptor option"
  attributeDescriptors :: "ref list option"
  metaItemDescriptors :: "string list option"
  valueDescriptors :: "string list option"

text \<open>
  The store: attribute descriptor objects and asset type info objects, addressed by index.
  A new object is appended, so its address is the length of the list before.
\<close>

record heap =
  attributeObjects :: "AttributeDescriptor list"
  typeInfoObjects :: "AssetTypeInfo list"

text \<open>
  What the resolver takes from \<^verbatim>\<open>@openremote/core\<close> and \<^verbatim>\<open>@openremote/model\<close>, which are
  not part of the embedded file, as parameters:
  \<^verbatim>\<open>AssetModelUtil.getAssetDescriptors()\<close>, \<^verbatim>\<open>AssetModelUtil.getAssetTypeInfo(ad)\<close>
  (a reference to a type info object of the catalog, or \<^verbatim>\<open>undefined\<close>),
  \<^verbatim>\<open>AssetModelUtil.getAssetTypeInfos()\<close>, \<^verbatim>\<open>WellknownAssets.UNKNOWNASSET\<close> and
  \<^verbatim>\<open>Util.stringMatch\<close>.
\<close>

record AssetModelUtil =
  getAssetDescriptors :: "AssetDescriptor list"
  getAssetTypeInfo :: "AssetDescriptor \<Rightarrow> ref option"
  getAssetTypeInfos :: "ref list"
  UNKNOWNASSET :: string
  stringMatch :: "string \<Rightarrow> string option \<Rightarrow> bool"

subsection \<open>JavaScript primitives\<close>

text \<open>A string is truthy when it is defined and not empty.\<close>

definition truthy :: "string option \<Rightarrow> bool" where
  "truthy s = (case s of None \<Rightarrow> False | Some v \<Rightarrow> v \<noteq> [])"

text \<open>A property key that is \<^verbatim>\<open>undefined\<close> is converted to the string \<^verbatim>\<open>"undefined"\<close>.\<close>

definition propertyKey :: "string option \<Rightarrow> string" where
  "propertyKey k = (case k of None \<Rightarrow> ''undefined'' | Some s \<Rightarrow> s)"

text \<open>
  A dictionary of the configuration is a plain object, a map on its own keys. The read
  \<^verbatim>\<open>dict[k]\<close> finds an own property, and otherwise what the object inherits from
  \<^verbatim>\<open>Object.prototype\<close> under that key: a function, or under \<^verbatim>\<open>__proto__\<close> the prototype
  itself. Such a value is truthy and has none of the properties the resolver reads from a
  config entry, so it is read as the entry with every field undefined, given as
  \<open>inherited\<close>.
\<close>

definition objectPrototypeKeys :: "string list" where
  "objectPrototypeKeys =
     [''constructor'', ''hasOwnProperty'', ''isPrototypeOf'', ''propertyIsEnumerable'',
      ''toLocaleString'', ''toString'', ''valueOf'', ''__proto__'',
      ''__defineGetter__'', ''__defineSetter__'', ''__lookupGetter__'', ''__lookupSetter__'']"

definition propertyRead :: "'a \<Rightarrow> (string \<rightharpoonup> 'a) \<Rightarrow> string \<Rightarrow> 'a option" where
  "propertyRead inherited dict k =
     (case dict k of
        Some v \<Rightarrow> Some v
      | None \<Rightarrow> if k \<in> set objectPrototypeKeys then Some inherited else None)"

definition inheritedAsset :: RulesConfigAsset where
  "inheritedAsset = \<lparr>includeAttributes = None, excludeAttributes = None,
                     RulesConfigAsset.name = None, RulesConfigAsset.icon = None, color = None,
                     RulesConfigAsset.attributeDescriptors = None\<rparr>"

definition inheritedAttribute :: RulesConfigAttribute where
  "inheritedAttribute = \<lparr>AttributeDescriptor.name = None, type = None, format = None,
                         units = None, constraints = None\<rparr>"

text \<open>\<^verbatim>\<open>Array.prototype.indexOf\<close>: the first index of the element, or \<open>-1\<close>.\<close>

fun indexOf :: "'a list \<Rightarrow> 'a \<Rightarrow> int" where
  "indexOf [] x = - 1"
| "indexOf (y # ys) x =
     (if y = x then 0 else (let i = indexOf ys x in if i < 0 then - 1 else i + 1))"

text \<open>
  \<^verbatim>\<open>Array.prototype.map\<close> with a callback that may throw and may write to the store:
  elements are visited from left to right and the first exception ends the call.
\<close>

fun mapS :: "(heap \<Rightarrow> 'a \<Rightarrow> error + heap \<times> 'b) \<Rightarrow> heap \<Rightarrow> 'a list \<Rightarrow> error + heap \<times> 'b list" where
  "mapS f h [] = Inr (h, [])"
| "mapS f h (x # xs) =
     (case f h x of
        Inl e \<Rightarrow> Inl e
      | Inr (h1, y) \<Rightarrow>
          (case mapS f h1 xs of
             Inl e \<Rightarrow> Inl e
           | Inr (h2, ys) \<Rightarrow> Inr (h2, y # ys)))"

subsection \<open>\<^verbatim>\<open>getAssetTypes\<close>\<close>

text \<open>
  \<^verbatim>\<open>ati.assetDescriptor!.name\<close>: the non-null assertion is erased at run time, so the read
  throws when the type info has no asset descriptor.
\<close>

definition assetDescriptorName :: "heap \<Rightarrow> ref \<Rightarrow> error + string option" where
  "assetDescriptorName h r =
     (case assetDescriptor (typeInfoObjects h ! r) of
        None \<Rightarrow> Inl TypeError
      | Some ad \<Rightarrow> Inr (AssetDescriptor.name ad))"

fun getAssetTypeNames :: "string \<Rightarrow> heap \<Rightarrow> ref list \<Rightarrow> error + string option list" where
  "getAssetTypeNames unknown h [] = Inr []"
| "getAssetTypeNames unknown h (r # rs) =
     (case assetDescriptorName h r of
        Inl e \<Rightarrow> Inl e
      | Inr n \<Rightarrow>
          (case getAssetTypeNames unknown h rs of
             Inl e \<Rightarrow> Inl e
           | Inr ns \<Rightarrow> Inr (if n \<noteq> Some unknown then n # ns else ns)))"

text \<open>
  \<^verbatim>\<open>getAssetTypeInfos().filter(ati => name(ati) !== UNKNOWNASSET).map(ati => name(ati))\<close>;
  the filter and the map read the same field of the same objects, so one pass gives the
  result of both.
\<close>

definition getAssetTypes :: "AssetModelUtil \<Rightarrow> heap \<Rightarrow> error + string option list" where
  "getAssetTypes m h = getAssetTypeNames (UNKNOWNASSET m) h (getAssetTypeInfos m)"

subsection \<open>\<^verbatim>\<open>getAssetDescriptorFromSection\<close>\<close>

text \<open>
  \<^verbatim>\<open>section && section.assets ? section.assets[t] ? section.assets[t] : section.assets["*"] : undefined\<close>
\<close>

definition sectionAssetDescriptor :: "RulesDescriptorSection option \<Rightarrow> string \<Rightarrow> RulesConfigAsset option" where
  "sectionAssetDescriptor section assetType =
     (case section of
        None \<Rightarrow> None
      | Some s \<Rightarrow>
          (case assets s of
             None \<Rightarrow> None
           | Some a \<Rightarrow>
               (case propertyRead inheritedAsset a assetType of
                  Some d \<Rightarrow> Some d
                | None \<Rightarrow> propertyRead inheritedAsset a ''*'')))"

definition sideSection :: "Descriptors \<Rightarrow> bool \<Rightarrow> RulesDescriptorSection option" where
  "sideSection d useActionConfig = (if useActionConfig then action d else when d)"

definition getAssetDescriptorFromSection :: "string \<Rightarrow> RulesConfig option \<Rightarrow> bool \<Rightarrow> RulesConfigAsset option" where
  "getAssetDescriptorFromSection assetType config useActionConfig =
     (case config of
        None \<Rightarrow> None
      | Some c \<Rightarrow>
          (case descriptors c of
             None \<Rightarrow> None
           | Some d \<Rightarrow>
               (let section = sideSection d useActionConfig;
                    allSection = all d;
                    descriptor = sectionAssetDescriptor section assetType
                in case descriptor of
                     Some x \<Rightarrow> Some x
                   | None \<Rightarrow> sectionAssetDescriptor allSection assetType)))"

subsection \<open>\<^verbatim>\<open>getAssetInfos\<close>: allow-list, exclusions and the filter\<close>

text \<open>The value of \<^verbatim>\<open>section && section.includeAssets\<close> (an array is truthy when defined).\<close>

definition sectionIncludeAssets :: "RulesDescriptorSection option \<Rightarrow> string list option" where
  "sectionIncludeAssets section = (case section of None \<Rightarrow> None | Some s \<Rightarrow> includeAssets s)"

definition sectionExcludeAssets :: "RulesDescriptorSection option \<Rightarrow> string list option" where
  "sectionExcludeAssets section = (case section of None \<Rightarrow> None | Some s \<Rightarrow> excludeAssets s)"

text \<open>
  Lines 221 and 229 to 239: \<^verbatim>\<open>allowedAssetTypes\<close> starts as the resolved value of
  \<^verbatim>\<open>getAssetTypes()\<close> and is assigned up to three times.
\<close>

definition allowedAssetTypes :: "Descriptors \<Rightarrow> bool \<Rightarrow> string option list \<Rightarrow> string option list" where
  "allowedAssetTypes d useActionConfig availibleAssetTypes =
     (let section = sideSection d useActionConfig;
          allowed0 = availibleAssetTypes
      in if sectionIncludeAssets section \<noteq> None \<or> sectionIncludeAssets (all d) \<noteq> None then
           (let allowed1 = [];
                allowed2 = (case sectionIncludeAssets section of
                              Some l \<Rightarrow> map Some l | None \<Rightarrow> allowed1);
                allowed3 = (case sectionIncludeAssets (all d) of
                              Some l \<Rightarrow> map Some l | None \<Rightarrow> allowed2)
            in allowed3)
         else allowed0)"

text \<open>Lines 222 and 241 to 246.\<close>

definition excludedAssetTypes :: "Descriptors \<Rightarrow> bool \<Rightarrow> string list" where
  "excludedAssetTypes d useActionConfig =
     (let section = sideSection d useActionConfig;
          excluded0 = [];
          excluded1 = (case sectionExcludeAssets section of
                         Some l \<Rightarrow> l | None \<Rightarrow> excluded0);
          excluded2 = (case sectionExcludeAssets (all d) of
                         Some l \<Rightarrow> excluded1 @ l | None \<Rightarrow> excluded1)
      in excluded2)"

text \<open>
  The callback of \<^verbatim>\<open>assetDescriptors.filter\<close>, lines 248 to 253. The excluded names are
  strings, the descriptor's name may be \<^verbatim>\<open>undefined\<close>.
\<close>

definition assetFilter :: "string option list \<Rightarrow> string list \<Rightarrow> AssetDescriptor \<Rightarrow> bool" where
  "assetFilter allowed excluded ad =
     (if length allowed > 0 \<and> indexOf allowed (AssetDescriptor.name ad) < 0 then False
      else indexOf (map Some excluded) (AssetDescriptor.name ad) < 0)"

definition filteredAssetDescriptors :: "AssetModelUtil \<Rightarrow> Descriptors \<Rightarrow> bool \<Rightarrow> string option list \<Rightarrow> AssetDescriptor list" where
  "filteredAssetDescriptors m d useActionConfig availibleAssetTypes =
     filter (assetFilter (allowedAssetTypes d useActionConfig availibleAssetTypes)
                         (excludedAssetTypes d useActionConfig))
            (getAssetDescriptors m)"

subsection \<open>\<^verbatim>\<open>getAssetInfos\<close>: attribute overrides\<close>

text \<open>
  Lines 299 to 312: the four assignments to the fields of \<^verbatim>\<open>attributeDescriptor\<close>, as
  the new value of that object. Each is guarded by the truthiness of the override's field:
  a string for \<^verbatim>\<open>type\<close>, an object or an array for the other three.
\<close>

definition applyAttributeOverride :: "RulesConfigAttribute \<Rightarrow> AttributeDescriptor \<Rightarrow> AttributeDescriptor" where
  "applyAttributeOverride c a =
     (let a1 = (if truthy (type c) then a\<lparr>type := type c\<rparr> else a);
          a2 = (if format c \<noteq> None then a1\<lparr>format := format c\<rparr> else a1);
          a3 = (if units c \<noteq> None then a2\<lparr>units := units c\<rparr> else a2);
          a4 = (case constraints c of
                  None \<Rightarrow> a3
                | Some cs \<Rightarrow>
                    a3\<lparr>constraints :=
                         (case constraints a3 of
                            Some os \<Rightarrow> Some (cs @ os)
                          | None \<Rightarrow> Some cs)\<rparr>)
      in a4)"

text \<open>The value of \<^verbatim>\<open>s && s.attributeDescriptors ? s.attributeDescriptors[k] : undefined\<close>.\<close>

definition sectionAttributeDescriptor :: "RulesDescriptorSection option \<Rightarrow> string \<Rightarrow> RulesConfigAttribute option" where
  "sectionAttributeDescriptor section k =
     (case section of
        None \<Rightarrow> None
      | Some s \<Rightarrow>
          (case RulesDescriptorSection.attributeDescriptors s of
             None \<Rightarrow> None
           | Some ds \<Rightarrow> propertyRead inheritedAttribute ds k))"

text \<open>Lines 292 to 298: the override that applies to an attribute name.\<close>

definition configAttributeDescriptor ::
  "(string \<rightharpoonup> RulesConfigAttribute) \<Rightarrow> RulesDescriptorSection option \<Rightarrow> RulesDescriptorSection option
     \<Rightarrow> string option \<Rightarrow> RulesConfigAttribute option" where
  "configAttributeDescriptor cads section allSection attributeName =
     (let k = propertyKey attributeName;
          c1 = propertyRead inheritedAttribute cads k;
          c2 = (case c1 of Some c \<Rightarrow> Some c | None \<Rightarrow> sectionAttributeDescriptor section k);
          c3 = (case c2 of Some c \<Rightarrow> Some c | None \<Rightarrow> sectionAttributeDescriptor allSection k)
      in c3)"

text \<open>
  The callback of \<^verbatim>\<open>modifiedTypeInfo.attributeDescriptors.map\<close>, lines 291 to 313. Its
  argument is an element of the copied array, that is a reference to the attribute
  descriptor object of the catalog, and the assignments write to that object. The callback
  returns nothing and the array that \<^verbatim>\<open>map\<close> builds is dropped.
\<close>

definition overrideAttributeDescriptor ::
  "(string \<rightharpoonup> RulesConfigAttribute) \<Rightarrow> RulesDescriptorSection option \<Rightarrow> RulesDescriptorSection option
     \<Rightarrow> ref \<Rightarrow> heap \<Rightarrow> heap" where
  "overrideAttributeDescriptor cads section allSection r h =
     (let attributeDescriptor = attributeObjects h ! r
      in case configAttributeDescriptor cads section allSection
                (AttributeDescriptor.name attributeDescriptor) of
           None \<Rightarrow> h
         | Some c \<Rightarrow>
             h\<lparr>attributeObjects :=
                 (attributeObjects h)[r := applyAttributeOverride c attributeDescriptor]\<rparr>)"

text \<open>The callback of \<^verbatim>\<open>modifiedTypeInfo.attributeDescriptors.filter\<close>, lines 284 to 286.\<close>

definition attributeFilter :: "AssetModelUtil \<Rightarrow> heap \<Rightarrow> string list option \<Rightarrow> string list option \<Rightarrow> ref \<Rightarrow> bool" where
  "attributeFilter m h includedAttributes excludedAttributes r =
     (let mad = attributeObjects h ! r
      in (case includedAttributes of
            None \<Rightarrow> True
          | Some incs \<Rightarrow> list_ex (\<lambda>inc. stringMatch m inc (AttributeDescriptor.name mad)) incs)
       \<and> (case excludedAttributes of
            None \<Rightarrow> True
          | Some excs \<Rightarrow> \<not> list_ex (\<lambda>exc. stringMatch m exc (AttributeDescriptor.name mad)) excs))"

subsection \<open>\<^verbatim>\<open>getAssetInfos\<close>: one descriptor, and the whole call\<close>

text \<open>
  Lines 265 and 271 to 276: the asset descriptor of \<^verbatim>\<open>modifiedTypeInfo\<close>, a copy (spread)
  of the catalog's, or a new one, with the icon and the colour of the config descriptor
  when these are truthy.
\<close>

definition modifiedAssetDescriptor :: "RulesConfigAsset \<Rightarrow> AssetTypeInfo \<Rightarrow> AssetDescriptor" where
  "modifiedAssetDescriptor configDescriptor typeInfo =
     (let ad0 = (case assetDescriptor typeInfo of
                   Some ad \<Rightarrow> ad
                 | None \<Rightarrow> \<lparr>descriptorType = Some ''asset'', AssetDescriptor.name = None,
                            AssetDescriptor.icon = None, colour = None\<rparr>);
          ad1 = (if truthy (RulesConfigAsset.icon configDescriptor)
                 then ad0\<lparr>AssetDescriptor.icon := RulesConfigAsset.icon configDescriptor\<rparr> else ad0);
          ad2 = (if truthy (color configDescriptor)
                 then ad1\<lparr>colour := color configDescriptor\<rparr> else ad1)
      in ad2)"

text \<open>
  Lines 266 and 279 to 287: the array \<^verbatim>\<open>modifiedTypeInfo.attributeDescriptors\<close>, a copy of
  the catalog's array, filtered when the config descriptor includes or excludes
  attributes. The copy has the same elements, the references to the catalog's attribute
  descriptor objects. \<^verbatim>\<open>if (modifiedTypeInfo.attributeDescriptors)\<close> tests an array, which
  is truthy.
\<close>

definition modifiedAttributeDescriptors :: "AssetModelUtil \<Rightarrow> RulesConfigAsset \<Rightarrow> heap \<Rightarrow> AssetTypeInfo \<Rightarrow> ref list" where
  "modifiedAttributeDescriptors m configDescriptor h typeInfo =
     (let attrs0 = (case AssetTypeInfo.attributeDescriptors typeInfo of Some l \<Rightarrow> l | None \<Rightarrow> []);
          includedAttributes = includeAttributes configDescriptor;
          excludedAttributes = excludeAttributes configDescriptor
      in if includedAttributes \<noteq> None \<or> excludedAttributes \<noteq> None
         then filter (attributeFilter m h includedAttributes excludedAttributes) attrs0
         else attrs0)"

text \<open>
  Lines 264 to 316, when a config descriptor was found for the asset type and the type info
  is the object at \<open>r\<close>. \<^verbatim>\<open>modifiedTypeInfo\<close> is a new object. The attribute overrides are
  applied when the config descriptor has a dictionary \<^verbatim>\<open>attributeDescriptors\<close> of its own
  (line 290).
\<close>

definition amalgamate ::
  "AssetModelUtil \<Rightarrow> RulesConfigAsset \<Rightarrow> RulesDescriptorSection option \<Rightarrow> RulesDescriptorSection option
     \<Rightarrow> heap \<Rightarrow> ref \<Rightarrow> heap \<times> ref" where
  "amalgamate m configDescriptor section allSection h r =
     (let typeInfo = typeInfoObjects h ! r;
          metas = (case metaItemDescriptors typeInfo of Some l \<Rightarrow> l | None \<Rightarrow> []);
          vals = (case valueDescriptors typeInfo of Some l \<Rightarrow> l | None \<Rightarrow> []);
          attrs = modifiedAttributeDescriptors m configDescriptor h typeInfo;
          h1 = (case RulesConfigAsset.attributeDescriptors configDescriptor of
                  None \<Rightarrow> h
                | Some cads \<Rightarrow> fold (overrideAttributeDescriptor cads section allSection) attrs h);
          modifiedTypeInfo = \<lparr>assetDescriptor = Some (modifiedAssetDescriptor configDescriptor typeInfo),
                              AssetTypeInfo.attributeDescriptors = Some attrs,
                              metaItemDescriptors = Some metas,
                              valueDescriptors = Some vals\<rparr>
      in (h1\<lparr>typeInfoObjects := typeInfoObjects h1 @ [modifiedTypeInfo]\<rparr>,
          length (typeInfoObjects h1)))"

text \<open>
  The callback of the final \<^verbatim>\<open>map\<close>, lines 254 to 317. An element of the result is a
  reference to a type info object, or \<^verbatim>\<open>undefined\<close> when the catalog's lookup found none
  and no config descriptor applies. With a config descriptor and no type info,
  \<^verbatim>\<open>typeInfo.assetDescriptor\<close> throws.
\<close>

definition resolveAssetDescriptor ::
  "AssetModelUtil \<Rightarrow> RulesConfig \<Rightarrow> Descriptors \<Rightarrow> bool \<Rightarrow> heap \<Rightarrow> AssetDescriptor
     \<Rightarrow> error + heap \<times> ref option" where
  "resolveAssetDescriptor m config d useActionConfig h ad =
     (let typeInfo = getAssetTypeInfo m ad;
          configDescriptor =
            getAssetDescriptorFromSection (propertyKey (AssetDescriptor.name ad)) (Some config) useActionConfig
      in case configDescriptor of
           None \<Rightarrow> Inr (h, typeInfo)
         | Some cd \<Rightarrow>
             (case typeInfo of
                None \<Rightarrow> Inl TypeError
              | Some r \<Rightarrow>
                  (case amalgamate m cd (sideSection d useActionConfig) (all d) h r of
                     (h1, r1) \<Rightarrow> Inr (h1, Some r1))))"

text \<open>
  The callback of \<^verbatim>\<open>getAssetTypes().then\<close>, lines 220 to 319, applied to the value the
  promise resolved to.
\<close>

definition getAssetInfosThen ::
  "AssetModelUtil \<Rightarrow> RulesConfig option \<Rightarrow> bool \<Rightarrow> heap \<Rightarrow> string option list
     \<Rightarrow> error + heap \<times> ref option list" where
  "getAssetInfosThen m config useActionConfig h availibleAssetTypes =
     (case config of
        None \<Rightarrow> Inr (h, map (getAssetTypeInfo m) (getAssetDescriptors m))
      | Some c \<Rightarrow>
          (case descriptors c of
             None \<Rightarrow> Inr (h, map (getAssetTypeInfo m) (getAssetDescriptors m))
           | Some d \<Rightarrow>
               mapS (resolveAssetDescriptor m c d useActionConfig) h
                    (filteredAssetDescriptors m d useActionConfig availibleAssetTypes)))"

text \<open>
  \<^verbatim>\<open>getAssetInfos\<close>: the promise of \<^verbatim>\<open>getAssetTypes()\<close> is awaited first; when it is
  rejected the callback does not run and the returned promise is rejected with the same
  error. The result is the store after the call and the array the promise resolves to.
\<close>

definition getAssetInfos ::
  "AssetModelUtil \<Rightarrow> RulesConfig option \<Rightarrow> bool \<Rightarrow> heap \<Rightarrow> error + heap \<times> ref option list" where
  "getAssetInfos m config useActionConfig h =
     (case getAssetTypes m h of
        Inl e \<Rightarrow> Inl e
      | Inr availibleAssetTypes \<Rightarrow> getAssetInfosThen m config useActionConfig h availibleAssetTypes)"

text \<open>
  What a deep comparison of a resolved type info sees: the object with the attribute
  descriptor objects it refers to, read in a given store.
\<close>

definition deepTypeInfo ::
  "heap \<Rightarrow> ref option
     \<Rightarrow> (AssetDescriptor option \<times> AttributeDescriptor list option \<times> string list option \<times> string list option) option" where
  "deepTypeInfo h r =
     map_option (\<lambda>i. let ti = typeInfoObjects h ! i
                      in (assetDescriptor ti,
                          map_option (map (\<lambda>a. attributeObjects h ! a)) (AssetTypeInfo.attributeDescriptors ti),
                          metaItemDescriptors ti,
                          valueDescriptors ti)) r"

subsection \<open>The request events\<close>

text \<open>
  A ruleset (\<^verbatim>\<open>RulesetUnion\<close> of \<^verbatim>\<open>@openremote/model\<close>) is an object in a store of its own; the
  guard reads its \<^verbatim>\<open>id\<close> and copies it as a whole. A node refers to its ruleset.
\<close>

record RulesetUnion =
  id' :: "int option"
  name :: "string option"
  rules :: "string option"

record RulesetNode =
  ruleset :: ref
  selected :: bool

record 'a RequestEventDetail =
  allow :: bool
  detail :: 'a

record NodeSelectEventDetail =
  oldNodes :: "RulesetNode list"
  newNodes :: "RulesetNode list"

record AddEventDetail =
  ruleset :: ref
  sourceRuleset :: "ref option"

text \<open>
  \<^verbatim>\<open>CustomEvent<T>\<close>, as built by \<^verbatim>\<open>super(NAME, {bubbles, composed, detail})\<close>.
\<close>

record 'a CustomEvent =
  NAME :: string
  bubbles :: bool
  composed :: bool
  detail :: 'a

definition OrRulesRequestSelectionEvent ::
  "NodeSelectEventDetail \<Rightarrow> NodeSelectEventDetail RequestEventDetail CustomEvent" where
  "OrRulesRequestSelectionEvent request =
     \<lparr>NAME = ''or-rules-request-selection'', bubbles = True, composed = True,
      CustomEvent.detail = \<lparr>allow = True, RequestEventDetail.detail = request\<rparr>\<rparr>"

definition OrRulesRequestAddEvent ::
  "AddEventDetail \<Rightarrow> AddEventDetail RequestEventDetail CustomEvent" where
  "OrRulesRequestAddEvent d =
     \<lparr>NAME = ''or-rules-request-add'', bubbles = True, composed = True,
      CustomEvent.detail = \<lparr>allow = True, RequestEventDetail.detail = d\<rparr>\<rparr>"

definition OrRulesRequestDeleteEvent ::
  "RulesetNode list \<Rightarrow> RulesetNode list RequestEventDetail CustomEvent" where
  "OrRulesRequestDeleteEvent request =
     \<lparr>NAME = ''or-rules-request-delete'', bubbles = True, composed = True,
      CustomEvent.detail = \<lparr>allow = True, RequestEventDetail.detail = request\<rparr>\<rparr>"

definition OrRulesRequestSaveEvent ::
  "ref \<Rightarrow> ref RequestEventDetail CustomEvent" where
  "OrRulesRequestSaveEvent rs =
     \<lparr>NAME = ''or-rules-request-save'', bubbles = True, composed = True,
      CustomEvent.detail = \<lparr>allow = True, RequestEventDetail.detail = rs\<rparr>\<rparr>"

subsection \<open>The selection guard of \<^verbatim>\<open>OrRules\<close>\<close>

text \<open>
  The state the guard reads and writes: the ruleset objects, \<^verbatim>\<open>this.selectedIds\<close> and the
  two properties of \<^verbatim>\<open>this._viewer\<close>.
\<close>

record OrRuleViewer =
  modified :: bool
  ruleset :: "ref option"

record OrRules =
  rulesetObjects :: "RulesetUnion list"
  selectedIds :: "int option list option"
  viewer :: OrRuleViewer

text \<open>
  Modelled from the spec: \<^verbatim>\<open>Util.objectsEqual\<close> of \<^verbatim>\<open>@openremote/core\<close> is not in the
  embedded file; the spec describes the comparison of the two node lists as deep equality.
  Two node lists are deep-equal when they have the same length and, position by position,
  rulesets with equal fields and equal \<^verbatim>\<open>selected\<close> flags.
\<close>

definition objectsEqual :: "RulesetUnion list \<Rightarrow> RulesetNode list \<Rightarrow> RulesetNode list \<Rightarrow> bool" where
  "objectsEqual store xs ys =
     (map (\<lambda>n. (store ! RulesetNode.ruleset n, selected n)) xs
      = map (\<lambda>n. (store ! RulesetNode.ruleset n, selected n)) ys)"

text \<open>
  The arrow function passed to \<^verbatim>\<open>_confirmContinue\<close>, lines 617 to 626.
  \<^verbatim>\<open>nodes[0]\<close> of an empty array is \<^verbatim>\<open>undefined\<close> and reading its \<^verbatim>\<open>ruleset\<close> throws
  before anything is assigned. The spread \<^verbatim>\<open>{...nodes[0].ruleset}\<close> creates a new object
  with the fields of the node's ruleset.
\<close>

definition selectionAction :: "NodeSelectEventDetail RequestEventDetail CustomEvent \<Rightarrow> OrRules \<Rightarrow> error + OrRules" where
  "selectionAction event s =
     (let nodes = newNodes (RequestEventDetail.detail (CustomEvent.detail event))
      in if objectsEqual (rulesetObjects s) nodes
              (oldNodes (RequestEventDetail.detail (CustomEvent.detail event))) then
           (case nodes of
              [] \<Rightarrow> Inl TypeError
            | n # _ \<Rightarrow>
                Inr (s\<lparr>rulesetObjects :=
                         rulesetObjects s @ [rulesetObjects s ! RulesetNode.ruleset n],
                       viewer := (viewer s)\<lparr>OrRuleViewer.ruleset := Some (length (rulesetObjects s))\<rparr>\<rparr>))
         else
           Inr (s\<lparr>selectedIds :=
                    Some (map (\<lambda>node. id' (rulesetObjects s ! RulesetNode.ruleset node)) nodes),
                  viewer := (viewer s)\<lparr>OrRuleViewer.ruleset :=
                    (if length nodes = 1 then Some (RulesetNode.ruleset (nodes ! 0)) else None)\<rparr>\<rparr>))"

text \<open>
  \<^verbatim>\<open>_confirmContinue\<close>. The dialog is shown by \<^verbatim>\<open>showOkCancelDialog\<close>, which is not in the
  embedded file; \<open>ok\<close> is the value its promise resolves to, and the state is assumed not to
  change while the dialog is open. The result is the dialog that was requested (the two
  translation keys), if any, and what the action returned or the state as it was.
\<close>

definition confirmContinue ::
  "bool \<Rightarrow> (OrRules \<Rightarrow> error + OrRules) \<Rightarrow> OrRules \<Rightarrow> (string \<times> string) option \<times> (error + OrRules)" where
  "confirmContinue ok act s =
     (if modified (viewer s) then
        (Some (''loseChanges'', ''confirmContinueRulesetModified''),
         if ok then act s else Inr s)
      else (None, act s))"

text \<open>
  \<^verbatim>\<open>_onRuleSelectionRequested\<close>: the event after the handler, the dialog requested, and the
  outcome of the continuation.
\<close>

definition onRuleSelectionRequested ::
  "bool \<Rightarrow> NodeSelectEventDetail RequestEventDetail CustomEvent \<Rightarrow> OrRules
     \<Rightarrow> NodeSelectEventDetail RequestEventDetail CustomEvent \<times> (string \<times> string) option \<times> (error + OrRules)" where
  "onRuleSelectionRequested ok event s =
     (let isModified = modified (viewer s)
      in if \<not> isModified then (event, None, Inr s)
         else
           (let event1 = event\<lparr>CustomEvent.detail := (CustomEvent.detail event)\<lparr>allow := False\<rparr>\<rparr>
            in (event1, confirmContinue ok (selectionAction event1) s)))"

subsection \<open>The selection of the override, in the words of the specification\<close>

text \<open>
  The entry a section's \<^verbatim>\<open>assets\<close> dictionary has of its own under a key, the entry a
  section's shared \<^verbatim>\<open>attributeDescriptors\<close> dictionary has of its own, and the first defined
  value of a list of candidates. They state the order of precedence the specification
  gives and are compared with the lookups of the code below.
\<close>

definition assetsEntry :: "RulesDescriptorSection option \<Rightarrow> string \<Rightarrow> RulesConfigAsset option" where
  "assetsEntry section k =
     (case section of None \<Rightarrow> None | Some s \<Rightarrow> (case assets s of None \<Rightarrow> None | Some a \<Rightarrow> a k))"


fun firstDefined :: "'a option list \<Rightarrow> 'a option" where
  "firstDefined [] = None"
| "firstDefined (None # os) = firstDefined os"
| "firstDefined (Some x # os) = Some x"

subsection \<open>An example catalog and configuration\<close>

text \<open>
  One asset type, \<^verbatim>\<open>ThingAsset\<close>, with one attribute \<^verbatim>\<open>temperature\<close> whose constraints are
  \<^verbatim>\<open>[min]\<close>. The attribute descriptor is object 0 of its store, the type info object 0 of
  its store. The configuration overrides the constraints of \<^verbatim>\<open>temperature\<close> with \<^verbatim>\<open>[max]\<close>
  for \<^verbatim>\<open>ThingAsset\<close> on the \<^verbatim>\<open>when\<close> side.
\<close>

definition exMin :: ValueConstraint where
  "exMin = ValueConstraint ''min''"

definition exMax :: ValueConstraint where
  "exMax = ValueConstraint ''max''"

definition exThing :: AssetDescriptor where
  "exThing = \<lparr>descriptorType = Some ''asset'', AssetDescriptor.name = Some ''ThingAsset'',
              AssetDescriptor.icon = None, colour = None\<rparr>"

definition exTemperature :: AttributeDescriptor where
  "exTemperature = \<lparr>AttributeDescriptor.name = Some ''temperature'',
                    type = Some ''number'', format = None, units = None,
                    constraints = Some [exMin]\<rparr>"

definition exThingInfo :: AssetTypeInfo where
  "exThingInfo = \<lparr>assetDescriptor = Some exThing, AssetTypeInfo.attributeDescriptors = Some [0],
                  metaItemDescriptors = Some [], valueDescriptors = Some []\<rparr>"

definition exHeap :: heap where
  "exHeap = \<lparr>attributeObjects = [exTemperature], typeInfoObjects = [exThingInfo]\<rparr>"

definition exModel :: AssetModelUtil where
  "exModel = \<lparr>getAssetDescriptors = [exThing],
              getAssetTypeInfo =
                (\<lambda>ad. if AssetDescriptor.name ad = Some ''ThingAsset'' then Some 0 else None),
              getAssetTypeInfos = [0],
              UNKNOWNASSET = ''UnknownAsset'',
              stringMatch = (\<lambda>needle haystack. haystack = Some needle)\<rparr>"

definition exOverride :: RulesConfigAttribute where
  "exOverride = \<lparr>AttributeDescriptor.name = None, type = None, format = None, units = None,
                 constraints = Some [exMax]\<rparr>"

definition exConfigAsset :: RulesConfigAsset where
  "exConfigAsset = \<lparr>includeAttributes = None, excludeAttributes = None,
                    RulesConfigAsset.name = None, RulesConfigAsset.icon = None, color = None,
                    RulesConfigAsset.attributeDescriptors = Some [''temperature'' \<mapsto> exOverride]\<rparr>"

definition exSection :: "string list option \<Rightarrow> string list option \<Rightarrow> RulesDescriptorSection" where
  "exSection inc exc = \<lparr>includeAssets = inc, excludeAssets = exc,
                        RulesDescriptorSection.attributeDescriptors = None, assets = None\<rparr>"

definition exDescriptors :: Descriptors where
  "exDescriptors = \<lparr>all = None,
                    when = Some ((exSection None None)\<lparr>assets := Some [''ThingAsset'' \<mapsto> exConfigAsset]\<rparr>),
                    action = None\<rparr>"

definition exConfig :: RulesConfig where
  "exConfig = \<lparr>descriptors = Some exDescriptors\<rparr>"

text \<open>Two rulesets with the same fields at different addresses, and a viewer with unsaved edits.\<close>

definition exRuleset :: RulesetUnion where
  "exRuleset = \<lparr>id' = Some 7, RulesetUnion.name = Some ''night'', rules = Some ''{}''\<rparr>"

definition exOther :: RulesetUnion where
  "exOther = \<lparr>id' = Some 9, RulesetUnion.name = Some ''day'', rules = Some ''{}''\<rparr>"

definition exNode :: "ref \<Rightarrow> RulesetNode" where
  "exNode r = \<lparr>RulesetNode.ruleset = r, selected = True\<rparr>"

definition exOrRules :: OrRules where
  "exOrRules = \<lparr>rulesetObjects = [exRuleset, exOther], selectedIds = Some [Some 7],
                viewer = \<lparr>modified = True, OrRuleViewer.ruleset = Some 0\<rparr>\<rparr>"

definition exRequest :: "RulesetNode list \<Rightarrow> RulesetNode list \<Rightarrow> NodeSelectEventDetail RequestEventDetail CustomEvent" where
  "exRequest old new = OrRulesRequestSelectionEvent \<lparr>oldNodes = old, newNodes = new\<rparr>"

text \<open>The store after one resolution of the example with the \<^verbatim>\<open>when\<close> side, and after two.\<close>

definition exHeap1 :: heap where
  "exHeap1 = \<lparr>attributeObjects = [exTemperature\<lparr>constraints := Some [exMax, exMin]\<rparr>],
              typeInfoObjects = [exThingInfo, exThingInfo]\<rparr>"

definition exHeap2 :: heap where
  "exHeap2 = \<lparr>attributeObjects = [exTemperature\<lparr>constraints := Some [exMax, exMax, exMin]\<rparr>],
              typeInfoObjects = [exThingInfo, exThingInfo, exThingInfo]\<rparr>"







text \<open>
  A catalog whose only asset type is named \<^verbatim>\<open>constructor\<close>, and a configuration whose
  \<^verbatim>\<open>when\<close> section has the empty dictionary \<^verbatim>\<open>assets: {}\<close>.
\<close>

definition exConstructor :: AssetDescriptor where
  "exConstructor = \<lparr>descriptorType = Some ''asset'', AssetDescriptor.name = Some ''constructor'',
                    AssetDescriptor.icon = None, colour = None\<rparr>"

definition exConstructorInfo :: AssetTypeInfo where
  "exConstructorInfo = \<lparr>assetDescriptor = Some exConstructor,
                        AssetTypeInfo.attributeDescriptors = Some [0],
                        metaItemDescriptors = Some [], valueDescriptors = Some []\<rparr>"

definition exConstructorHeap :: heap where
  "exConstructorHeap = \<lparr>attributeObjects = [exTemperature], typeInfoObjects = [exConstructorInfo]\<rparr>"

definition exConstructorModel :: AssetModelUtil where
  "exConstructorModel = \<lparr>getAssetDescriptors = [exConstructor],
                         getAssetTypeInfo =
                           (\<lambda>ad. if AssetDescriptor.name ad = Some ''constructor'' then Some 0 else None),
                         getAssetTypeInfos = [0],
                         UNKNOWNASSET = ''UnknownAsset'',
                         stringMatch = (\<lambda>needle haystack. haystack = Some needle)\<rparr>"

definition exEmptyAssets :: Descriptors where
  "exEmptyAssets = \<lparr>all = None,
                    when = Some ((exSection None None)\<lparr>assets := Some Map.empty\<rparr>),
                    action = None\<rparr>"

section \<open>Properties\<close>

subsection \<open>Auxiliary facts\<close>

lemma indexOf_negative: "indexOf xs x < 0 \<longleftrightarrow> x \<notin> set xs"
  by (induction xs) (auto simp: Let_def)

lemma firstDefined_Cons:
  "firstDefined (x # xs) = (case x of Some v \<Rightarrow> Some v | None \<Rightarrow> firstDefined xs)"
  by (cases x) simp_all

lemma assetFilter_iff:
  "assetFilter allowed excluded ad \<longleftrightarrow>
     (allowed = [] \<or> AssetDescriptor.name ad \<in> set allowed)
     \<and> AssetDescriptor.name ad \<notin> Some ` set excluded"
  by (auto simp: assetFilter_def indexOf_negative)

lemma mapS_list_all2:
  "mapS f h xs = Inr (h', ys) \<Longrightarrow> list_all2 (\<lambda>x y. \<exists>h0 h1. f h0 x = Inr (h1, y)) xs ys"
proof (induction xs arbitrary: h ys)
  case Nil
  then show ?case by simp
next
  case (Cons x xs)
  then show ?case
    by (auto split: sum.splits prod.splits)
qed

text \<open>
  The whole call runs the map callback on the surviving descriptors from left to right,
  each in the store the one before left: the resolved array and the final store are those
  of this chain of calls.
\<close>

lemma mapS_steps:
  "mapS f h xs = Inr (h', ys) \<Longrightarrow>
     \<exists>hs. length hs = Suc (length xs) \<and> hs ! 0 = h \<and> hs ! length xs = h'
          \<and> length ys = length xs
          \<and> (\<forall>i < length xs. f (hs ! i) (xs ! i) = Inr (hs ! Suc i, ys ! i))"
proof (induction xs arbitrary: h ys)
  case Nil
  then show ?case
    by (auto intro: exI [of _ "[h]"])
next
  case (Cons x xs)
  from Cons.prems obtain h1 y ys1 where fx: "f h x = Inr (h1, y)"
    and rest: "mapS f h1 xs = Inr (h', ys1)" and ys: "ys = y # ys1"
    by (auto split: sum.splits prod.splits)
  from Cons.IH [OF rest] obtain hs where hs: "length hs = Suc (length xs)" "hs ! 0 = h1"
    "hs ! length xs = h'" "length ys1 = length xs"
    "\<forall>i < length xs. f (hs ! i) (xs ! i) = Inr (hs ! Suc i, ys1 ! i)"
    by blast
  have "\<forall>i < length (x # xs). f ((h # hs) ! i) ((x # xs) ! i) = Inr ((h # hs) ! Suc i, ys ! i)"
  proof (intro allI impI)
    fix i assume "i < length (x # xs)"
    then show "f ((h # hs) ! i) ((x # xs) ! i) = Inr ((h # hs) ! Suc i, ys ! i)"
      using fx hs ys by (cases i) simp_all
  qed
  with hs ys show ?case
    by (intro exI [of _ "h # hs"]) simp
qed

lemma getAssetInfosThen_steps:
  assumes "descriptors c = Some d"
      and "getAssetInfosThen m (Some c) useActionConfig h availible = Inr (h', rs)"
  shows "\<exists>hs. length hs = Suc (length (filteredAssetDescriptors m d useActionConfig availible))
           \<and> hs ! 0 = h
           \<and> hs ! length (filteredAssetDescriptors m d useActionConfig availible) = h'
           \<and> length rs = length (filteredAssetDescriptors m d useActionConfig availible)
           \<and> (\<forall>i < length (filteredAssetDescriptors m d useActionConfig availible).
                 resolveAssetDescriptor m c d useActionConfig (hs ! i)
                   (filteredAssetDescriptors m d useActionConfig availible ! i)
                 = Inr (hs ! Suc i, rs ! i))"
  using assms by (auto simp: getAssetInfosThen_def dest: mapS_steps)


lemmas ex_constructor_defs = exConstructor_def exConstructorInfo_def exConstructorHeap_def
  exConstructorModel_def exEmptyAssets_def

lemmas ex_defs = exMin_def exMax_def exThing_def exTemperature_def exThingInfo_def exHeap_def
  exHeap1_def exHeap2_def
  exModel_def exOverride_def exConfigAsset_def exSection_def exDescriptors_def exConfig_def

lemmas resolver_defs = getAssetInfos_def getAssetTypes_def assetDescriptorName_def
  getAssetInfosThen_def filteredAssetDescriptors_def allowedAssetTypes_def
  excludedAssetTypes_def sideSection_def sectionIncludeAssets_def sectionExcludeAssets_def
  assetFilter_def resolveAssetDescriptor_def getAssetDescriptorFromSection_def
  sectionAssetDescriptor_def propertyKey_def amalgamate_def truthy_def
  modifiedAssetDescriptor_def modifiedAttributeDescriptors_def propertyRead_def
  objectPrototypeKeys_def
  overrideAttributeDescriptor_def configAttributeDescriptor_def
  sectionAttributeDescriptor_def applyAttributeOverride_def attributeFilter_def

subsection \<open>The allow-list\<close>

text \<open>
  Claim C2. A section defines \<^verbatim>\<open>includeAssets\<close> when the section and the field are defined.
  If both the side-specific section and the \<^verbatim>\<open>all\<close> section define it, the allow-list is
  the list of the \<^verbatim>\<open>all\<close> section alone; if only one of them defines it, the allow-list is
  that list; if neither does, it is the list of names \<^verbatim>\<open>getAssetTypes()\<close> resolved to.
\<close>

theorem allowedAssetTypes_precedence:
  "(sectionIncludeAssets (sideSection d useActionConfig) = Some s
      \<and> sectionIncludeAssets (all d) = Some a
      \<longrightarrow> allowedAssetTypes d useActionConfig availible = map Some a)
   \<and> (sectionIncludeAssets (sideSection d useActionConfig) = None
      \<and> sectionIncludeAssets (all d) = Some a
      \<longrightarrow> allowedAssetTypes d useActionConfig availible = map Some a)
   \<and> (sectionIncludeAssets (sideSection d useActionConfig) = Some s
      \<and> sectionIncludeAssets (all d) = None
      \<longrightarrow> allowedAssetTypes d useActionConfig availible = map Some s)
   \<and> (sectionIncludeAssets (sideSection d useActionConfig) = None
      \<and> sectionIncludeAssets (all d) = None
      \<longrightarrow> allowedAssetTypes d useActionConfig availible = availible)"
  by (simp add: allowedAssetTypes_def Let_def)

theorem allowedAssetTypes_precedence_witness:
  "allowedAssetTypes \<lparr>all = Some (exSection (Some [''A'', ''B'']) None),
                      when = Some (exSection (Some [''C'']) None), action = None\<rparr>
     False [Some ''X''] = [Some ''A'', Some ''B'']
   \<and> allowedAssetTypes \<lparr>all = Some (exSection (Some [''A'', ''B'']) None),
                        when = Some (exSection None None), action = None\<rparr>
     False [Some ''X''] = [Some ''A'', Some ''B'']
   \<and> allowedAssetTypes \<lparr>all = None, when = None,
                        action = Some (exSection (Some [''C'']) None)\<rparr>
     True [Some ''X''] = [Some ''C'']
   \<and> allowedAssetTypes \<lparr>all = None, when = None,
                        action = Some (exSection (Some [''C'']) None)\<rparr>
     False [Some ''X''] = [Some ''X'']"
  using
    allowedAssetTypes_precedence
      [of "\<lparr>all = Some (exSection (Some [''A'', ''B'']) None),
            when = Some (exSection (Some [''C'']) None), action = None\<rparr>"
          False "[''C'']" "[''A'', ''B'']" "[Some ''X'']"]
    allowedAssetTypes_precedence
      [of "\<lparr>all = Some (exSection (Some [''A'', ''B'']) None),
            when = Some (exSection None None), action = None\<rparr>"
          False "[]" "[''A'', ''B'']" "[Some ''X'']"]
    allowedAssetTypes_precedence
      [of "\<lparr>all = None, when = None, action = Some (exSection (Some [''C'']) None)\<rparr>"
          True "[''C'']" "[]" "[Some ''X'']"]
    allowedAssetTypes_precedence
      [of "\<lparr>all = None, when = None, action = Some (exSection (Some [''C'']) None)\<rparr>"
          False "[]" "[]" "[Some ''X'']"]
  by (simp add: sideSection_def sectionIncludeAssets_def exSection_def)

subsection \<open>Attribute overrides\<close>

text \<open>
  One call of the callback writes one object and leaves the others, and the type infos,
  as they are. Within one pass over an array that lists an attribute descriptor object
  once, the object is written once, so the pass leaves it as a single call of the callback
  does.
\<close>

lemma overrideAttributeDescriptor_length:
  "length (attributeObjects (overrideAttributeDescriptor cads section allSection x h))
     = length (attributeObjects h)"
  by (simp add: overrideAttributeDescriptor_def Let_def split: option.splits)



lemma overrideAttributeDescriptor_typeInfos:
  "typeInfoObjects (overrideAttributeDescriptor cads section allSection r h) = typeInfoObjects h"
  by (simp add: overrideAttributeDescriptor_def Let_def split: option.splits)

lemma fold_override_typeInfos:
  "typeInfoObjects (fold (overrideAttributeDescriptor cads section allSection) rs h) = typeInfoObjects h"
  by (induction rs arbitrary: h) (simp_all add: overrideAttributeDescriptor_typeInfos)

lemma fold_override_length:
  "length (attributeObjects (fold (overrideAttributeDescriptor cads section allSection) rs h))
     = length (attributeObjects h)"
  by (induction rs arbitrary: h) (simp_all add: overrideAttributeDescriptor_length)




text \<open>
  For a key that \<^verbatim>\<open>Object.prototype\<close> does not have, a read finds the dictionary's own
  entry, and the lookup of lines 292 to 298 is the first defined of the own entries of the
  config descriptor's dictionary, the side-specific section's and the \<^verbatim>\<open>all\<close> section's.
\<close>

lemma propertyRead_own:
  "k \<notin> set objectPrototypeKeys \<Longrightarrow> propertyRead inherited dict k = dict k"
  by (simp add: propertyRead_def split: option.splits)


text \<open>
  What the map callback returns when a config descriptor \<open>cd\<close> was found and the catalog
  has a type info: a new type info object, built from \<open>cd\<close>, in a store in which the
  attribute overrides have been written.
\<close>

lemma resolveAssetDescriptor_found:
  assumes "getAssetDescriptorFromSection (propertyKey (AssetDescriptor.name ad)) (Some config)
             useActionConfig = Some cd"
      and "getAssetTypeInfo m ad = Some r"
  shows "\<exists>h1. resolveAssetDescriptor m config d useActionConfig h ad
                = Inr (h1, Some (length (typeInfoObjects h)))
           \<and> attributeObjects h1
               = attributeObjects
                   (case RulesConfigAsset.attributeDescriptors cd of
                      None \<Rightarrow> h
                    | Some cads \<Rightarrow>
                        fold (overrideAttributeDescriptor cads (sideSection d useActionConfig) (all d))
                             (modifiedAttributeDescriptors m cd h (typeInfoObjects h ! r)) h)
           \<and> length (typeInfoObjects h1) = Suc (length (typeInfoObjects h))
           \<and> take (length (typeInfoObjects h)) (typeInfoObjects h1) = typeInfoObjects h
           \<and> assetDescriptor (typeInfoObjects h1 ! length (typeInfoObjects h))
               = Some (modifiedAssetDescriptor cd (typeInfoObjects h ! r))
           \<and> AssetTypeInfo.attributeDescriptors (typeInfoObjects h1 ! length (typeInfoObjects h))
               = Some (modifiedAttributeDescriptors m cd h (typeInfoObjects h ! r))"
  using assms
  by (simp add: resolveAssetDescriptor_def amalgamate_def Let_def fold_override_typeInfos
           split: option.splits)




text \<open>
  Without a dictionary of its own in the config descriptor the overrides of the sections'
  shared dictionaries are not consulted, and no attribute descriptor object is written.
\<close>

lemma resolveAssetDescriptor_without_dictionary:
  assumes "getAssetDescriptorFromSection (propertyKey (AssetDescriptor.name ad)) (Some config)
             useActionConfig = Some cd"
      and "getAssetTypeInfo m ad = Some r"
      and "RulesConfigAsset.attributeDescriptors cd = None"
      and "resolveAssetDescriptor m config d useActionConfig h ad = Inr (h1, res)"
  shows "attributeObjects h1 = attributeObjects h"
  using resolveAssetDescriptor_found [OF assms(1) assms(2), of d h] assms(3) assms(4)
  by auto

subsection \<open>Exclusions and the filter\<close>

text \<open>
  Claim C4. The excluded names are those of the side-specific section's \<^verbatim>\<open>excludeAssets\<close>
  together with those of the \<^verbatim>\<open>all\<close> section's. A descriptor of the catalog survives the
  filter if and only if the allow-list is empty or contains its name, and its name is not
  excluded. The survivors keep the catalog's order, and the resolved array has one element
  per survivor, in the same order: each element is what the callback returned for the
  survivor at its position.
\<close>

theorem filteredAssetDescriptors_stable:
  "set (excludedAssetTypes d useActionConfig)
     = (case sectionExcludeAssets (sideSection d useActionConfig) of None \<Rightarrow> {} | Some l \<Rightarrow> set l)
       \<union> (case sectionExcludeAssets (all d) of None \<Rightarrow> {} | Some l \<Rightarrow> set l)
   \<and> filteredAssetDescriptors m d useActionConfig availible
     = filter (\<lambda>ad. (allowedAssetTypes d useActionConfig availible = []
                       \<or> AssetDescriptor.name ad \<in> set (allowedAssetTypes d useActionConfig availible))
                    \<and> AssetDescriptor.name ad \<notin> Some ` set (excludedAssetTypes d useActionConfig))
         (getAssetDescriptors m)
   \<and> subseq (filteredAssetDescriptors m d useActionConfig availible) (getAssetDescriptors m)
   \<and> (getAssetInfosThen m (Some c) useActionConfig h availible = Inr (h', rs)
        \<and> descriptors c = Some d
      \<longrightarrow> list_all2 (\<lambda>ad r. \<exists>h0 h1. resolveAssetDescriptor m c d useActionConfig h0 ad = Inr (h1, r))
            (filteredAssetDescriptors m d useActionConfig availible) rs)"
proof -
  have "set (excludedAssetTypes d useActionConfig)
          = (case sectionExcludeAssets (sideSection d useActionConfig) of None \<Rightarrow> {} | Some l \<Rightarrow> set l)
            \<union> (case sectionExcludeAssets (all d) of None \<Rightarrow> {} | Some l \<Rightarrow> set l)"
    by (simp add: excludedAssetTypes_def Let_def split: option.splits)
  moreover have "filteredAssetDescriptors m d useActionConfig availible
     = filter (\<lambda>ad. (allowedAssetTypes d useActionConfig availible = []
                       \<or> AssetDescriptor.name ad \<in> set (allowedAssetTypes d useActionConfig availible))
                    \<and> AssetDescriptor.name ad \<notin> Some ` set (excludedAssetTypes d useActionConfig))
         (getAssetDescriptors m)"
    unfolding filteredAssetDescriptors_def
    by (rule filter_cong) (simp_all add: assetFilter_iff)
  moreover have "subseq (filteredAssetDescriptors m d useActionConfig availible) (getAssetDescriptors m)"
    by (simp add: filteredAssetDescriptors_def)
  moreover have "getAssetInfosThen m (Some c) useActionConfig h availible = Inr (h', rs)
        \<and> descriptors c = Some d
      \<longrightarrow> list_all2 (\<lambda>ad r. \<exists>h0 h1. resolveAssetDescriptor m c d useActionConfig h0 ad = Inr (h1, r))
            (filteredAssetDescriptors m d useActionConfig availible) rs"
    by (auto simp: getAssetInfosThen_def dest: mapS_list_all2)
  ultimately show ?thesis by blast
qed

theorem filteredAssetDescriptors_stable_witness:
  "set (excludedAssetTypes \<lparr>all = Some (exSection None (Some [''X''])),
                            when = Some (exSection None (Some [''Y''])), action = None\<rparr> False)
     = {''X'', ''Y''}
   \<and> filteredAssetDescriptors exModel exDescriptors False [Some ''ThingAsset''] = [exThing]
   \<and> list_all2 (\<lambda>ad r. \<exists>h0 h1. resolveAssetDescriptor exModel exConfig exDescriptors False h0 ad
                                   = Inr (h1, r))
        (filteredAssetDescriptors exModel exDescriptors False [Some ''ThingAsset'']) [Some 1]"
proof -
  have run: "getAssetInfosThen exModel (Some exConfig) False exHeap [Some ''ThingAsset'']
               = Inr (exHeap1, [Some 1])"
    by (simp add: ex_defs resolver_defs Let_def)
  have d: "descriptors exConfig = Some exDescriptors"
    by (simp add: exConfig_def)
  have filtered: "filteredAssetDescriptors exModel exDescriptors False [Some ''ThingAsset''] = [exThing]"
    by (simp add: ex_defs resolver_defs Let_def)
  from filteredAssetDescriptors_stable
         [of "\<lparr>all = Some (exSection None (Some [''X''])),
                when = Some (exSection None (Some [''Y''])), action = None\<rparr>" False,
          THEN conjunct1]
  have "set (excludedAssetTypes \<lparr>all = Some (exSection None (Some [''X''])),
                            when = Some (exSection None (Some [''Y''])), action = None\<rparr> False)
     = {''X'', ''Y''}"
    by (simp add: sideSection_def sectionExcludeAssets_def exSection_def)
  moreover from filteredAssetDescriptors_stable
         [of exDescriptors False exModel "[Some ''ThingAsset'']" exConfig exHeap exHeap1 "[Some 1]"]
       run d
  have "list_all2 (\<lambda>ad r. \<exists>h0 h1. resolveAssetDescriptor exModel exConfig exDescriptors False h0 ad
                                   = Inr (h1, r))
        (filteredAssetDescriptors exModel exDescriptors False [Some ''ThingAsset'']) [Some 1]"
    by blast
  ultimately show ?thesis
    using filtered by simp
qed

subsection \<open>No configuration\<close>

text \<open>
  The promise of \<^verbatim>\<open>getAssetTypes()\<close> is resolved exactly when every type info of the
  catalog has an asset descriptor, which is what the non-null assertions of line 199 state.
\<close>

lemma getAssetTypeNames_resolves:
  "(\<exists>ns. getAssetTypeNames unknown h rs = Inr ns)
     \<longleftrightarrow> (\<forall>r \<in> set rs. assetDescriptor (typeInfoObjects h ! r) \<noteq> None)"
  by (induction rs) (auto simp: assetDescriptorName_def split: option.splits sum.splits)

lemma getAssetTypes_resolves:
  "(\<exists>ns. getAssetTypes m h = Inr ns)
     \<longleftrightarrow> (\<forall>r \<in> set (getAssetTypeInfos m). assetDescriptor (typeInfoObjects h ! r) \<noteq> None)"
  by (simp add: getAssetTypes_def getAssetTypeNames_resolves)

text \<open>
  Claim C5. For every catalog whose type infos have an asset descriptor, as line 199
  asserts, and for either side, a \<^verbatim>\<open>config\<close> that is undefined, or whose \<^verbatim>\<open>descriptors\<close>
  is undefined, gives the catalog's own type infos: the lookup applied to each asset
  descriptor, in the catalog's order, nothing filtered, and no object created or written.
\<close>

theorem getAssetInfos_without_descriptors:
  assumes "\<forall>r \<in> set (getAssetTypeInfos m). assetDescriptor (typeInfoObjects h ! r) \<noteq> None"
      and "config = None \<or> (\<exists>c. config = Some c \<and> descriptors c = None)"
  shows "getAssetInfos m config useActionConfig h
           = Inr (h, map (getAssetTypeInfo m) (getAssetDescriptors m))"
proof -
  from assms(1) obtain availible where "getAssetTypes m h = Inr availible"
    using getAssetTypes_resolves [of m h] by blast
  with assms(2) show ?thesis
    by (auto simp: getAssetInfos_def getAssetInfosThen_def)
qed

theorem getAssetInfos_without_descriptors_witness:
  "getAssetTypeInfos exModel = [0]
   \<and> assetDescriptor (typeInfoObjects exHeap ! 0) = Some exThing
   \<and> getAssetInfos exModel None False exHeap = Inr (exHeap, [Some 0])
   \<and> getAssetInfos exModel None True exHeap = Inr (exHeap, [Some 0])
   \<and> getAssetInfos exModel (Some \<lparr>descriptors = None\<rparr>) True exHeap = Inr (exHeap, [Some 0])"
proof -
  have catalog: "\<forall>r \<in> set (getAssetTypeInfos exModel).
                   assetDescriptor (typeInfoObjects exHeap ! r) \<noteq> None"
    by (simp add: exModel_def exHeap_def exThingInfo_def)
  have undefined_config: "(None :: RulesConfig option) = None
      \<or> (\<exists>c. (None :: RulesConfig option) = Some c \<and> descriptors c = None)"
    by simp
  have undefined_descriptors: "Some \<lparr>descriptors = None\<rparr> = None
      \<or> (\<exists>c. Some \<lparr>descriptors = None\<rparr> = Some c \<and> descriptors c = None)"
    by simp
  have infos: "getAssetTypeInfos exModel = [0]
      \<and> assetDescriptor (typeInfoObjects exHeap ! 0) = Some exThing"
    by (simp add: exModel_def exHeap_def exThingInfo_def)
  show ?thesis
    using infos
          getAssetInfos_without_descriptors [OF catalog undefined_config, of False]
          getAssetInfos_without_descriptors [OF catalog undefined_config, of True]
          getAssetInfos_without_descriptors [OF catalog undefined_descriptors, of True]
    by (simp add: exModel_def exThing_def)
qed

subsection \<open>The override of an asset type\<close>

text \<open>
  For an asset type whose name is not a key of \<^verbatim>\<open>Object.prototype\<close> the config
  descriptor is the first defined of: the own entry of the side-specific section for the
  type, its entry for \<^verbatim>\<open>"*"\<close>, the own entry of the \<^verbatim>\<open>all\<close> section for the type, its
  entry for \<^verbatim>\<open>"*"\<close>. When none of the four is defined, the callback returns the reference
  the catalog's lookup gave, the very same object, and the store is as before. When one is
  defined, the callback returns a new object built from it (\<open>resolveAssetDescriptor_found\<close>).
\<close>

lemma getAssetDescriptorFromSection_own:
  assumes "descriptors c = Some d"
      and "assetType \<notin> set objectPrototypeKeys"
  shows "getAssetDescriptorFromSection assetType (Some c) useActionConfig
          = firstDefined [assetsEntry (sideSection d useActionConfig) assetType,
                          assetsEntry (sideSection d useActionConfig) ''*'',
                          assetsEntry (all d) assetType,
                          assetsEntry (all d) ''*'']"
proof -
  have star: "''*'' \<notin> set objectPrototypeKeys"
    by (simp add: objectPrototypeKeys_def)
  show ?thesis
    using assms
    by (simp add: getAssetDescriptorFromSection_def sectionAssetDescriptor_def assetsEntry_def
                  propertyRead_own [OF assms(2)] propertyRead_own [OF star]
                  firstDefined_Cons Let_def
             split: option.splits)
qed

lemma resolveAssetDescriptor_nothing_found:
  assumes "descriptors c = Some d"
      and "propertyKey (AssetDescriptor.name ad) \<notin> set objectPrototypeKeys"
      and "assetsEntry (sideSection d useActionConfig) (propertyKey (AssetDescriptor.name ad)) = None"
      and "assetsEntry (sideSection d useActionConfig) ''*'' = None"
      and "assetsEntry (all d) (propertyKey (AssetDescriptor.name ad)) = None"
      and "assetsEntry (all d) ''*'' = None"
  shows "resolveAssetDescriptor m c d useActionConfig h ad = Inr (h, getAssetTypeInfo m ad)"
proof -
  have "getAssetDescriptorFromSection (propertyKey (AssetDescriptor.name ad)) (Some c) useActionConfig
          = None"
    using assms by (simp add: getAssetDescriptorFromSection_own)
  then show ?thesis
    by (simp add: resolveAssetDescriptor_def)
qed

text \<open>
  Claim C6 says that the override used is the first defined of the four entries, and that
  with no override at any level the catalog's type info is returned as the very same
  object. The code reads the entries with \<^verbatim>\<open>section.assets[assetType]\<close> (lines 180 and
  185), which also finds what the dictionary inherits from \<^verbatim>\<open>Object.prototype\<close>. For the
  asset type \<^verbatim>\<open>constructor\<close> and a section with \<^verbatim>\<open>assets: {}\<close> none of the four entries is
  defined, and yet a config descriptor is found: the callback does not return the catalog's
  type info, object 0, but a new object 1 that it appends to the store.
\<close>

theorem resolveAssetDescriptor_inherited_key:
  "assetsEntry (sideSection exEmptyAssets False) ''constructor'' = None
   \<and> assetsEntry (sideSection exEmptyAssets False) ''*'' = None
   \<and> assetsEntry (all exEmptyAssets) ''constructor'' = None
   \<and> assetsEntry (all exEmptyAssets) ''*'' = None
   \<and> getAssetDescriptorFromSection ''constructor'' (Some \<lparr>descriptors = Some exEmptyAssets\<rparr>) False
       = Some inheritedAsset
   \<and> getAssetTypeInfo exConstructorModel exConstructor = Some 0
   \<and> resolveAssetDescriptor exConstructorModel \<lparr>descriptors = Some exEmptyAssets\<rparr> exEmptyAssets
         False exConstructorHeap exConstructor
       = Inr (exConstructorHeap\<lparr>typeInfoObjects := [exConstructorInfo, exConstructorInfo]\<rparr>, Some 1)
   \<and> getAssetInfos exConstructorModel (Some \<lparr>descriptors = Some exEmptyAssets\<rparr>) False
         exConstructorHeap
       = Inr (exConstructorHeap\<lparr>typeInfoObjects := [exConstructorInfo, exConstructorInfo]\<rparr>, [Some 1])"
proof -
  have entries: "assetsEntry (sideSection exEmptyAssets False) ''constructor'' = None
      \<and> assetsEntry (sideSection exEmptyAssets False) ''*'' = None
      \<and> assetsEntry (all exEmptyAssets) ''constructor'' = None
      \<and> assetsEntry (all exEmptyAssets) ''*'' = None"
    by (simp add: assetsEntry_def sideSection_def exEmptyAssets_def exSection_def)
  have found: "getAssetDescriptorFromSection ''constructor''
                 (Some \<lparr>descriptors = Some exEmptyAssets\<rparr>) False = Some inheritedAsset"
    by (simp add: getAssetDescriptorFromSection_def sectionAssetDescriptor_def sideSection_def
                  propertyRead_def objectPrototypeKeys_def exEmptyAssets_def exSection_def Let_def)
  have info: "getAssetTypeInfo exConstructorModel exConstructor = Some 0"
    by (simp add: exConstructorModel_def exConstructor_def)
  have one: "resolveAssetDescriptor exConstructorModel \<lparr>descriptors = Some exEmptyAssets\<rparr>
               exEmptyAssets False exConstructorHeap exConstructor
             = Inr (exConstructorHeap\<lparr>typeInfoObjects := [exConstructorInfo, exConstructorInfo]\<rparr>,
                    Some 1)"
    by (simp add: ex_constructor_defs exSection_def exTemperature_def exMin_def resolver_defs
                  inheritedAsset_def Let_def)
  have whole: "getAssetInfos exConstructorModel (Some \<lparr>descriptors = Some exEmptyAssets\<rparr>) False
                 exConstructorHeap
               = Inr (exConstructorHeap\<lparr>typeInfoObjects := [exConstructorInfo, exConstructorInfo]\<rparr>,
                      [Some 1])"
    by (simp add: ex_constructor_defs exSection_def exTemperature_def exMin_def resolver_defs
                  inheritedAsset_def Let_def)
  from entries found info one whole show ?thesis by blast
qed

subsection \<open>Repeated resolution\<close>

text \<open>
  Claim C1 asks that resolving twice gives deep-equal results and leaves the catalog as it
  was. The example shows what the code does instead. The first call writes the override's
  constraints into attribute descriptor 0, an object of the catalog: the catalog's own type
  info 0, read deeply, is no longer what it was. The second call finds the constraints
  \<^verbatim>\<open>[max, min]\<close> and prepends \<^verbatim>\<open>[max]\<close> again, so what it returns differs from what the
  first call returned. Both results refer to the same attribute descriptor object, so after
  the second call the first result has changed with it.
\<close>

theorem getAssetInfos_writes_catalog:
  "getAssetInfos exModel (Some exConfig) False exHeap = Inr (exHeap1, [Some 1])
   \<and> getAssetInfos exModel (Some exConfig) False exHeap1 = Inr (exHeap2, [Some 2])
   \<and> constraints (attributeObjects exHeap ! 0) = Some [exMin]
   \<and> constraints (attributeObjects exHeap1 ! 0) = Some [exMax, exMin]
   \<and> constraints (attributeObjects exHeap2 ! 0) = Some [exMax, exMax, exMin]
   \<and> deepTypeInfo exHeap1 (getAssetTypeInfo exModel exThing)
       \<noteq> deepTypeInfo exHeap (getAssetTypeInfo exModel exThing)
   \<and> map (deepTypeInfo exHeap2) [Some 2] \<noteq> map (deepTypeInfo exHeap1) [Some 1]
   \<and> map (deepTypeInfo exHeap2) [Some 1] \<noteq> map (deepTypeInfo exHeap1) [Some 1]"
proof -
  have first: "getAssetInfos exModel (Some exConfig) False exHeap = Inr (exHeap1, [Some 1])"
    by (simp add: ex_defs resolver_defs Let_def)
  have second: "getAssetInfos exModel (Some exConfig) False exHeap1 = Inr (exHeap2, [Some 2])"
    by (simp add: ex_defs resolver_defs Let_def)
  have stores: "constraints (attributeObjects exHeap ! 0) = Some [exMin]
      \<and> constraints (attributeObjects exHeap1 ! 0) = Some [exMax, exMin]
      \<and> constraints (attributeObjects exHeap2 ! 0) = Some [exMax, exMax, exMin]"
    by (simp add: exHeap_def exHeap1_def exHeap2_def exTemperature_def)
  have catalog: "deepTypeInfo exHeap1 (getAssetTypeInfo exModel exThing)
       \<noteq> deepTypeInfo exHeap (getAssetTypeInfo exModel exThing)"
    by (simp add: deepTypeInfo_def ex_defs)
  have results: "map (deepTypeInfo exHeap2) [Some 2] \<noteq> map (deepTypeInfo exHeap1) [Some 1]
      \<and> map (deepTypeInfo exHeap2) [Some 1] \<noteq> map (deepTypeInfo exHeap1) [Some 1]"
    by (simp add: deepTypeInfo_def ex_defs)
  from first second stores catalog results show ?thesis by blast
qed

text \<open>
  What every call does leave alone: the type info objects that exist before the call are
  the same after it (new ones are appended), and no attribute descriptor object is created.
  The writes of the call are those of the attribute override callback.
\<close>

lemma amalgamate_store:
  "amalgamate m cd section allSection h r = (h1, r1) \<Longrightarrow>
     prefix (typeInfoObjects h) (typeInfoObjects h1)
     \<and> length (attributeObjects h1) = length (attributeObjects h)"
  by (auto simp: amalgamate_def Let_def fold_override_typeInfos fold_override_length
           split: option.splits)

lemma resolveAssetDescriptor_store:
  "resolveAssetDescriptor m c d u h ad = Inr (h1, r) \<Longrightarrow>
     prefix (typeInfoObjects h) (typeInfoObjects h1)
     \<and> length (attributeObjects h1) = length (attributeObjects h)"
  by (auto simp: resolveAssetDescriptor_def Let_def dest: amalgamate_store
           split: option.splits prod.splits)

lemma mapS_store:
  assumes step: "\<And>h x h1 y. f h x = Inr (h1, y) \<Longrightarrow>
            prefix (typeInfoObjects h) (typeInfoObjects h1)
            \<and> length (attributeObjects h1) = length (attributeObjects h)"
  shows "mapS f h xs = Inr (h', ys) \<Longrightarrow>
           prefix (typeInfoObjects h) (typeInfoObjects h')
           \<and> length (attributeObjects h') = length (attributeObjects h)"
proof (induction xs arbitrary: h ys)
  case Nil
  then show ?case by simp
next
  case (Cons x xs)
  from Cons.prems obtain h1 y ys1 where fx: "f h x = Inr (h1, y)"
    and rest: "mapS f h1 xs = Inr (h', ys1)"
    by (auto split: sum.splits prod.splits)
  from step [OF fx] Cons.IH [OF rest] show ?case
    by (auto intro: prefix_order.trans)
qed

lemma getAssetInfos_store:
  "getAssetInfos m config u h = Inr (h1, rs) \<Longrightarrow>
     prefix (typeInfoObjects h) (typeInfoObjects h1)
     \<and> length (attributeObjects h1) = length (attributeObjects h)"
  by (auto simp: getAssetInfos_def getAssetInfosThen_def
           split: sum.splits option.splits
           dest!: mapS_store [OF resolveAssetDescriptor_store, rotated])

subsection \<open>Request events\<close>

text \<open>
  Claim C9. Each of the four request events is constructed with its \<^verbatim>\<open>allow\<close> flag set to
  \<^verbatim>\<open>true\<close>, whatever the payload.
\<close>

theorem request_events_allow_initially:
  "allow (CustomEvent.detail (OrRulesRequestSelectionEvent selection))
   \<and> allow (CustomEvent.detail (OrRulesRequestAddEvent addition))
   \<and> allow (CustomEvent.detail (OrRulesRequestDeleteEvent nodes))
   \<and> allow (CustomEvent.detail (OrRulesRequestSaveEvent saved))"
  by (simp add: OrRulesRequestSelectionEvent_def OrRulesRequestAddEvent_def
                OrRulesRequestDeleteEvent_def OrRulesRequestSaveEvent_def)

subsection \<open>The selection guard\<close>

lemmas guard_defs = onRuleSelectionRequested_def confirmContinue_def selectionAction_def

lemmas guard_ex_defs = exRuleset_def exOther_def exNode_def exOrRules_def exRequest_def
  OrRulesRequestSelectionEvent_def

text \<open>
  Claim C7. With unsaved edits in the viewer, the handler sets the request's \<^verbatim>\<open>allow\<close> flag
  to \<^verbatim>\<open>false\<close> and asks for confirmation. When the user confirms and the new nodes are
  deep-equal to the old ones, starting with a node \<open>n\<close>, the viewer's ruleset becomes a new
  object, at an address no object had before, with the fields of the ruleset of \<open>n\<close>; the
  existing objects and \<^verbatim>\<open>selectedIds\<close> stay as they are. When the user confirms and the
  node lists differ, \<^verbatim>\<open>selectedIds\<close> becomes the identifiers of the new nodes, and the
  viewer's ruleset becomes the ruleset of the only new node, or undefined when there are no
  or several new nodes.
\<close>

theorem onRuleSelectionRequested_modified:
  assumes "modified (viewer s)"
  shows "(case onRuleSelectionRequested ok event s of
            (event1, dialog, outcome) \<Rightarrow>
              allow (CustomEvent.detail event1) = False
              \<and> RequestEventDetail.detail (CustomEvent.detail event1)
                  = RequestEventDetail.detail (CustomEvent.detail event)
              \<and> dialog = Some (''loseChanges'', ''confirmContinueRulesetModified''))
       \<and> (ok \<and> newNodes (RequestEventDetail.detail (CustomEvent.detail event)) = n # ns
             \<and> objectsEqual (rulesetObjects s)
                  (newNodes (RequestEventDetail.detail (CustomEvent.detail event)))
                  (oldNodes (RequestEventDetail.detail (CustomEvent.detail event)))
           \<longrightarrow> (case snd (snd (onRuleSelectionRequested ok event s)) of
                  Inl e \<Rightarrow> False
                | Inr s1 \<Rightarrow>
                    OrRuleViewer.ruleset (viewer s1) = Some (length (rulesetObjects s))
                    \<and> rulesetObjects s1 ! length (rulesetObjects s)
                        = rulesetObjects s ! RulesetNode.ruleset n
                    \<and> take (length (rulesetObjects s)) (rulesetObjects s1) = rulesetObjects s
                    \<and> selectedIds s1 = selectedIds s
                    \<and> modified (viewer s1) = modified (viewer s)))
       \<and> (ok \<and> \<not> objectsEqual (rulesetObjects s)
                  (newNodes (RequestEventDetail.detail (CustomEvent.detail event)))
                  (oldNodes (RequestEventDetail.detail (CustomEvent.detail event)))
           \<longrightarrow> (case snd (snd (onRuleSelectionRequested ok event s)) of
                  Inl e \<Rightarrow> False
                | Inr s1 \<Rightarrow>
                    selectedIds s1
                      = Some (map (\<lambda>node. id' (rulesetObjects s ! RulesetNode.ruleset node))
                                (newNodes (RequestEventDetail.detail (CustomEvent.detail event))))
                    \<and> OrRuleViewer.ruleset (viewer s1)
                        = (case newNodes (RequestEventDetail.detail (CustomEvent.detail event)) of
                             [node] \<Rightarrow> Some (RulesetNode.ruleset node)
                           | _ \<Rightarrow> None)
                    \<and> rulesetObjects s1 = rulesetObjects s
                    \<and> modified (viewer s1) = modified (viewer s)))"
proof (intro conjI impI)
  show "case onRuleSelectionRequested ok event s of
          (event1, dialog, outcome) \<Rightarrow>
            allow (CustomEvent.detail event1) = False
            \<and> RequestEventDetail.detail (CustomEvent.detail event1)
                = RequestEventDetail.detail (CustomEvent.detail event)
            \<and> dialog = Some (''loseChanges'', ''confirmContinueRulesetModified'')"
    using assms by (simp add: onRuleSelectionRequested_def confirmContinue_def Let_def)
next
  assume "ok \<and> newNodes (RequestEventDetail.detail (CustomEvent.detail event)) = n # ns
             \<and> objectsEqual (rulesetObjects s)
                  (newNodes (RequestEventDetail.detail (CustomEvent.detail event)))
                  (oldNodes (RequestEventDetail.detail (CustomEvent.detail event)))"
  then have "ok"
    and "newNodes (RequestEventDetail.detail (CustomEvent.detail event)) = n # ns"
    and "objectsEqual (rulesetObjects s) (n # ns)
           (oldNodes (RequestEventDetail.detail (CustomEvent.detail event)))"
    by auto
  with assms show "case snd (snd (onRuleSelectionRequested ok event s)) of
                  Inl e \<Rightarrow> False
                | Inr s1 \<Rightarrow>
                    OrRuleViewer.ruleset (viewer s1) = Some (length (rulesetObjects s))
                    \<and> rulesetObjects s1 ! length (rulesetObjects s)
                        = rulesetObjects s ! RulesetNode.ruleset n
                    \<and> take (length (rulesetObjects s)) (rulesetObjects s1) = rulesetObjects s
                    \<and> selectedIds s1 = selectedIds s
                    \<and> modified (viewer s1) = modified (viewer s)"
    by (simp add: guard_defs Let_def)
next
  assume "ok \<and> \<not> objectsEqual (rulesetObjects s)
                  (newNodes (RequestEventDetail.detail (CustomEvent.detail event)))
                  (oldNodes (RequestEventDetail.detail (CustomEvent.detail event)))"
  with assms show "case snd (snd (onRuleSelectionRequested ok event s)) of
                  Inl e \<Rightarrow> False
                | Inr s1 \<Rightarrow>
                    selectedIds s1
                      = Some (map (\<lambda>node. id' (rulesetObjects s ! RulesetNode.ruleset node))
                                (newNodes (RequestEventDetail.detail (CustomEvent.detail event))))
                    \<and> OrRuleViewer.ruleset (viewer s1)
                        = (case newNodes (RequestEventDetail.detail (CustomEvent.detail event)) of
                             [node] \<Rightarrow> Some (RulesetNode.ruleset node)
                           | _ \<Rightarrow> None)
                    \<and> rulesetObjects s1 = rulesetObjects s
                    \<and> modified (viewer s1) = modified (viewer s)"
    by (simp add: guard_defs Let_def split: list.splits)
qed

theorem onRuleSelectionRequested_modified_witness:
  "modified (viewer exOrRules)
   \<and> allow (CustomEvent.detail
        (fst (onRuleSelectionRequested True (exRequest [exNode 0] [exNode 0]) exOrRules))) = False
   \<and> fst (snd (onRuleSelectionRequested True (exRequest [exNode 0] [exNode 0]) exOrRules))
       = Some (''loseChanges'', ''confirmContinueRulesetModified'')
   \<and> (case snd (snd (onRuleSelectionRequested True (exRequest [exNode 0] [exNode 0]) exOrRules)) of
         Inl e \<Rightarrow> False
       | Inr s1 \<Rightarrow>
           OrRuleViewer.ruleset (viewer s1) = Some 2
           \<and> OrRuleViewer.ruleset (viewer exOrRules) = Some 0
           \<and> rulesetObjects s1 = [exRuleset, exOther, exRuleset]
           \<and> selectedIds s1 = Some [Some 7])
   \<and> (case snd (snd (onRuleSelectionRequested True (exRequest [exNode 0] [exNode 1]) exOrRules)) of
         Inl e \<Rightarrow> False
       | Inr s1 \<Rightarrow>
           selectedIds s1 = Some [Some 9]
           \<and> OrRuleViewer.ruleset (viewer s1) = Some 1
           \<and> rulesetObjects s1 = [exRuleset, exOther])
   \<and> (case snd (snd (onRuleSelectionRequested True (exRequest [exNode 0] [exNode 0, exNode 1])
                        exOrRules)) of
         Inl e \<Rightarrow> False
       | Inr s1 \<Rightarrow>
           selectedIds s1 = Some [Some 7, Some 9]
           \<and> OrRuleViewer.ruleset (viewer s1) = None)"
proof -
  have m: "modified (viewer exOrRules)"
    by (simp add: exOrRules_def)
  have same: "newNodes (RequestEventDetail.detail (CustomEvent.detail (exRequest [exNode 0] [exNode 0])))
                = exNode 0 # []
      \<and> objectsEqual (rulesetObjects exOrRules)
           (newNodes (RequestEventDetail.detail (CustomEvent.detail (exRequest [exNode 0] [exNode 0]))))
           (oldNodes (RequestEventDetail.detail (CustomEvent.detail (exRequest [exNode 0] [exNode 0]))))"
    by (simp add: guard_ex_defs objectsEqual_def)
  have one: "\<not> objectsEqual (rulesetObjects exOrRules)
           (newNodes (RequestEventDetail.detail (CustomEvent.detail (exRequest [exNode 0] [exNode 1]))))
           (oldNodes (RequestEventDetail.detail (CustomEvent.detail (exRequest [exNode 0] [exNode 1]))))"
    by (simp add: guard_ex_defs objectsEqual_def)
  have two: "\<not> objectsEqual (rulesetObjects exOrRules)
           (newNodes (RequestEventDetail.detail
              (CustomEvent.detail (exRequest [exNode 0] [exNode 0, exNode 1]))))
           (oldNodes (RequestEventDetail.detail
              (CustomEvent.detail (exRequest [exNode 0] [exNode 0, exNode 1]))))"
    by (simp add: guard_ex_defs objectsEqual_def)
  show ?thesis
    using m same one two
      onRuleSelectionRequested_modified
        [OF m, where ok = True and event = "exRequest [exNode 0] [exNode 0]"
             and n = "exNode 0" and ns = "[]"]
      onRuleSelectionRequested_modified
        [OF m, where ok = True and event = "exRequest [exNode 0] [exNode 1]"
             and n = "exNode 1" and ns = "[]"]
      onRuleSelectionRequested_modified
        [OF m, where ok = True and event = "exRequest [exNode 0] [exNode 0, exNode 1]"
             and n = "exNode 0" and ns = "[exNode 1]"]
    by (simp add: guard_defs guard_ex_defs objectsEqual_def Let_def)
qed

text \<open>
  Claim C8. With unsaved edits in the viewer, when the dialog resolves to \<^verbatim>\<open>false\<close> (cancel,
  or dismissal) the action is not run: the state after the request is the state before it,
  so \<^verbatim>\<open>selectedIds\<close> and the viewer's ruleset are as they were. The dialog was shown, and
  the request stays vetoed.
\<close>

theorem onRuleSelectionRequested_cancelled:
  assumes "modified (viewer s)"
  shows "snd (snd (onRuleSelectionRequested False event s)) = Inr s
       \<and> fst (snd (onRuleSelectionRequested False event s))
           = Some (''loseChanges'', ''confirmContinueRulesetModified'')
       \<and> allow (CustomEvent.detail (fst (onRuleSelectionRequested False event s))) = False"
  using assms by (simp add: onRuleSelectionRequested_def confirmContinue_def Let_def)

theorem onRuleSelectionRequested_cancelled_witness:
  "modified (viewer exOrRules)
   \<and> snd (snd (onRuleSelectionRequested False (exRequest [exNode 0] [exNode 1]) exOrRules))
       = Inr exOrRules
   \<and> selectedIds exOrRules = Some [Some 7]
   \<and> OrRuleViewer.ruleset (viewer exOrRules) = Some 0"
proof -
  have m: "modified (viewer exOrRules)"
    by (simp add: exOrRules_def)
  show ?thesis
    using m onRuleSelectionRequested_cancelled [OF m, where event = "exRequest [exNode 0] [exNode 1]"]
    by (simp add: exOrRules_def)
qed

text \<open>
  Claim C10. In the branch taken when the viewer has unsaved edits, the user confirms and
  the new nodes are deep-equal to the old ones, the action reads the ruleset of the first
  new node. The read succeeds exactly when there is a first node: the outcome is a
  \<open>TypeError\<close> if and only if the list of new nodes is empty. Two empty lists are
  deep-equal, so a confirmed request from no nodes to no nodes ends in that error.
\<close>

theorem reload_reads_first_node:
  assumes "modified (viewer s)"
  shows "(objectsEqual (rulesetObjects s)
            (newNodes (RequestEventDetail.detail (CustomEvent.detail event)))
            (oldNodes (RequestEventDetail.detail (CustomEvent.detail event)))
          \<longrightarrow> (snd (snd (onRuleSelectionRequested True event s)) = Inl TypeError)
                = (newNodes (RequestEventDetail.detail (CustomEvent.detail event)) = []))
       \<and> (newNodes (RequestEventDetail.detail (CustomEvent.detail event)) = []
            \<and> oldNodes (RequestEventDetail.detail (CustomEvent.detail event)) = []
          \<longrightarrow> objectsEqual (rulesetObjects s)
                (newNodes (RequestEventDetail.detail (CustomEvent.detail event)))
                (oldNodes (RequestEventDetail.detail (CustomEvent.detail event)))
              \<and> snd (snd (onRuleSelectionRequested True event s)) = Inl TypeError)"
  using assms
  by (simp add: guard_defs objectsEqual_def Let_def split: list.splits)

theorem reload_reads_first_node_witness:
  "modified (viewer exOrRules)
   \<and> snd (snd (onRuleSelectionRequested True (exRequest [] []) exOrRules)) = Inl TypeError
   \<and> snd (snd (onRuleSelectionRequested True (exRequest [exNode 0] [exNode 0]) exOrRules))
       \<noteq> Inl TypeError"
proof -
  have m: "modified (viewer exOrRules)"
    by (simp add: exOrRules_def)
  have empty: "newNodes (RequestEventDetail.detail (CustomEvent.detail (exRequest [] []))) = []
      \<and> oldNodes (RequestEventDetail.detail (CustomEvent.detail (exRequest [] []))) = []"
    by (simp add: guard_ex_defs)
  have same: "objectsEqual (rulesetObjects exOrRules)
           (newNodes (RequestEventDetail.detail (CustomEvent.detail (exRequest [exNode 0] [exNode 0]))))
           (oldNodes (RequestEventDetail.detail (CustomEvent.detail (exRequest [exNode 0] [exNode 0]))))"
    by (simp add: guard_ex_defs objectsEqual_def)
  have nonempty:
    "newNodes (RequestEventDetail.detail (CustomEvent.detail (exRequest [exNode 0] [exNode 0]))) \<noteq> []"
    by (simp add: guard_ex_defs)
  from reload_reads_first_node [OF m, where event = "exRequest [] []", THEN conjunct2] empty
  have "snd (snd (onRuleSelectionRequested True (exRequest [] []) exOrRules)) = Inl TypeError"
    by blast
  moreover from reload_reads_first_node
                  [OF m, where event = "exRequest [exNode 0] [exNode 0]", THEN conjunct1] same nonempty
  have "snd (snd (onRuleSelectionRequested True (exRequest [exNode 0] [exNode 0]) exOrRules))
          \<noteq> Inl TypeError"
    by blast
  ultimately show ?thesis
    using m by simp
qed

end
